theory Spec2Isabelle
  imports Complex_Main
begin

section \<open>The feature rescaling of GPRegressionModel.forward\<close>

text \<open>
  The notebook defines one function of its own, \<open>GPRegressionModel.forward\<close>:
  \<^verbatim>\<open>
    projected_x = self.feature_extractor(x)
    projected_x = projected_x - projected_x.min(0)[0]
    projected_x = 2 * (projected_x / projected_x.max(0)[0]) - 1
    mean_x = self.mean_module(projected_x)
    covar_x = self.covar_module(projected_x)
    return gpytorch.distributions.MultivariateNormal(mean_x, covar_x)
  \<close>
  A batch of extracted features is a tensor of shape \<open>n \<times> d\<close>, kept here as the list of its
  \<open>n\<close> rows. The notebook's tensors are float32 (\<open>torch.Tensor\<close>, \<open>torch.randn\<close>). The
  extracted features are finite floats, kept as real numbers; the result of an arithmetic
  operation is a torch float, which is a finite number, an infinity or NaN.
\<close>

datatype tfloat = Finite real | PosInf | NegInf | NaN

datatype torch_error = EmptyReduction

datatype ('m, 'c) distribution = MultivariateNormal 'm 'c

text \<open>
  The float32 result of an operation whose exact value is \<open>r\<close>. Rounding to nearest turns
  every value of magnitude \<open>2^128 - 2^103\<close> or more (the largest float32 plus half a unit
  in its last place) into an infinity. Rounding below that magnitude is not modelled: the
  exact value is kept.
\<close>

definition float32_overflow :: real where
  "float32_overflow = 2 ^ 128 - 2 ^ 103"

definition float32 :: "real \<Rightarrow> tfloat" where
  "float32 r = (if float32_overflow \<le> r then PosInf
                else if r \<le> - float32_overflow then NegInf
                else Finite r)"

text \<open>Column \<open>j\<close> of a tensor: the entries that a reduction over dimension 0 runs through.\<close>

definition column :: "'a list list \<Rightarrow> nat \<Rightarrow> 'a list" where
  "column X j = map (\<lambda>row. row ! j) X"

text \<open>
  \<open>X.min(0)[0]\<close>: the minimum of every column. torch refuses the reduction of a tensor
  with no rows.
\<close>

definition min0 :: "real list list \<Rightarrow> torch_error + real list" where
  "min0 X = (case X of [] \<Rightarrow> Inl EmptyReduction
             | r # _ \<Rightarrow> Inr (map (\<lambda>j. min_list (column X j)) [0..<length r]))"

text \<open>
  \<open>X - v\<close> with the vector \<open>v\<close> broadcast over the rows. The difference of two finite
  floats overflows when the two are far enough apart.
\<close>

definition sub_rows :: "real list list \<Rightarrow> real list \<Rightarrow> tfloat list list" where
  "sub_rows X v = map (\<lambda>row. map2 (\<lambda>x m. float32 (x - m)) row v) X"

text \<open>
  \<open>X.max(0)[0]\<close> of the shifted tensor, whose entries may be infinite: NaN wins over
  everything, then the positive infinity.
\<close>

fun tmax :: "tfloat \<Rightarrow> tfloat \<Rightarrow> tfloat" where
  "tmax NaN y = NaN"
| "tmax x NaN = NaN"
| "tmax PosInf y = PosInf"
| "tmax x PosInf = PosInf"
| "tmax NegInf y = y"
| "tmax x NegInf = x"
| "tmax (Finite a) (Finite b) = Finite (max a b)"

fun tmax_list :: "tfloat list \<Rightarrow> tfloat" where
  "tmax_list (x # xs) = (case xs of [] \<Rightarrow> x | _ \<Rightarrow> tmax x (tmax_list xs))"

definition max0 :: "tfloat list list \<Rightarrow> torch_error + tfloat list" where
  "max0 X = (case X of [] \<Rightarrow> Inl EmptyReduction
             | r # _ \<Rightarrow> Inr (map (\<lambda>j. tmax_list (column X j)) [0..<length r]))"

text \<open>
  Float division, multiplication by a scalar and subtraction of a scalar. Division raises
  nothing in torch: \<open>0 / 0\<close> and \<open>inf / inf\<close> are NaN, \<open>x / 0\<close> is an infinity with the sign
  of \<open>x\<close>, and a finite number divided by an infinity is zero. The sign of a zero is not
  kept: a zero divisor is \<open>+0\<close>, which is what \<open>x - x\<close> gives.
\<close>

fun tdiv :: "tfloat \<Rightarrow> tfloat \<Rightarrow> tfloat" where
  "tdiv NaN m = NaN"
| "tdiv x NaN = NaN"
| "tdiv (Finite x) (Finite m) =
     (if m \<noteq> 0 then float32 (x / m)
      else if x = 0 then NaN
      else if 0 < x then PosInf else NegInf)"
| "tdiv (Finite x) PosInf = Finite 0"
| "tdiv (Finite x) NegInf = Finite 0"
| "tdiv PosInf (Finite m) = (if 0 \<le> m then PosInf else NegInf)"
| "tdiv NegInf (Finite m) = (if 0 \<le> m then NegInf else PosInf)"
| "tdiv PosInf PosInf = NaN"
| "tdiv PosInf NegInf = NaN"
| "tdiv NegInf PosInf = NaN"
| "tdiv NegInf NegInf = NaN"

fun tmul :: "real \<Rightarrow> tfloat \<Rightarrow> tfloat" where
  "tmul c (Finite v) = float32 (c * v)"
| "tmul c PosInf = (if c = 0 then NaN else if 0 < c then PosInf else NegInf)"
| "tmul c NegInf = (if c = 0 then NaN else if 0 < c then NegInf else PosInf)"
| "tmul c NaN = NaN"

fun tsub :: "tfloat \<Rightarrow> real \<Rightarrow> tfloat" where
  "tsub (Finite v) c = float32 (v - c)"
| "tsub PosInf c = PosInf"
| "tsub NegInf c = NegInf"
| "tsub NaN c = NaN"

definition scale_entry :: "tfloat \<Rightarrow> tfloat \<Rightarrow> tfloat" where
  "scale_entry x m = tsub (tmul 2 (tdiv x m)) 1"

text \<open>The two rescaling lines of \<open>forward\<close>.\<close>

definition rescale :: "real list list \<Rightarrow> torch_error + tfloat list list" where
  "rescale P =
     (case min0 P of
        Inl e \<Rightarrow> Inl e
      | Inr mins \<Rightarrow>
          (let P1 = sub_rows P mins in
           case max0 P1 of
             Inl e \<Rightarrow> Inl e
           | Inr maxs \<Rightarrow> Inr (map (\<lambda>row. map2 scale_entry row maxs) P1)))"

text \<open>
  \<open>forward\<close>, with the feature extractor, the mean module and the covariance module (all
  three are objects of torch and gpytorch) as parameters. Nothing stands between the
  rescaling and the two modules.
\<close>

definition forward ::
  "('x \<Rightarrow> real list list) \<Rightarrow> (tfloat list list \<Rightarrow> 'm) \<Rightarrow> (tfloat list list \<Rightarrow> 'c) \<Rightarrow> 'x
    \<Rightarrow> torch_error + ('m, 'c) distribution" where
  "forward feature_extractor mean_module covar_module x =
     (case rescale (feature_extractor x) of
        Inl e \<Rightarrow> Inl e
      | Inr projected_x \<Rightarrow>
          Inr (MultivariateNormal (mean_module projected_x) (covar_module projected_x)))"

text \<open>
  A column after the first rescaling line; what it means for a feature dimension to be
  constant across the batch; and the spread of a feature dimension, its maximum minus its
  minimum.
\<close>

definition shifted :: "real list \<Rightarrow> tfloat list" where
  "shifted c = map (\<lambda>x. float32 (x - min_list c)) c"

definition constant_column :: "real list \<Rightarrow> bool" where
  "constant_column c = list_all (\<lambda>x. x = hd c) c"

fun max_list :: "real list \<Rightarrow> real" where
  "max_list (x # xs) = (case xs of [] \<Rightarrow> x | _ \<Rightarrow> max x (max_list xs))"

definition spread :: "real list \<Rightarrow> real" where
  "spread c = max_list c - min_list c"


section \<open>The prediction cache behind model.train(), model.eval() and model(test_x)\<close>

text \<open>
  The notebook drives gpytorch's cache of the root decomposition through three calls:
  \<^verbatim>\<open>
    # Clear the cache from the previous computations
    model.train()
    likelihood.train()
    # Set into eval mode
    model.eval()
    likelihood.eval()
    with torch.no_grad(), gpytorch.settings.fast_pred_var(), \
         gpytorch.settings.max_root_decomposition_size(100):
        preds = model(test_x)
  \<close>
  and, for samples, \<open>model(test_x).rsample(torch.Size([num_samples]))\<close> under
  \<open>gpytorch.settings.fast_pred_samples()\<close> as well. The three context managers are the
  settings of a call.
\<close>

record settings =
  fast_pred_var :: bool
  fast_pred_samples :: bool
  max_root_decomposition_size :: nat

text \<open>The errors of the specification's section 7.\<close>

datatype error = NumericalInstabilityError | StaleCacheError | DimensionMismatchError

text \<open>
  Modelled from the spec: the numerical routines of gpytorch (the prior of \<open>forward\<close>, the
  standard predictive distribution, the Lanczos root decomposition of the training system,
  the predictive distribution computed from a cached decomposition, and drawing samples
  from a distribution) are not in the repository's files. They are the fields of a library
  record, for a fixed trained system: \<open>'q\<close> is a query batch, \<open>'r\<close> a root decomposition
  with the predictive cache derived from it, \<open>'d\<close> a predictive distribution, \<open>'z\<close> the
  standard normal draws and \<open>'s\<close> a matrix of samples. \<open>root_decomposition k\<close> is
  \<open>build(trainingSystem, k)\<close>; it is \<open>None\<close> when the iteration loses orthogonality
  beyond tolerance. The flag of \<open>love_predictive\<close> is \<open>fast_pred_samples\<close>.
\<close>

record ('q, 'r, 'd, 'z, 's) gp_library =
  prior :: "'q \<Rightarrow> 'd"
  exact_predictive :: "'q \<Rightarrow> 'd"
  root_decomposition :: "nat \<Rightarrow> 'r option"
  love_predictive :: "bool \<Rightarrow> 'r \<Rightarrow> 'q \<Rightarrow> 'd"
  rsample :: "'d \<Rightarrow> 'z \<Rightarrow> 's"

text \<open>
  The state of the model object: the mode flag of \<open>torch.nn.Module\<close> and the cached
  decomposition, if there is one.
\<close>

record 'r model_state =
  training :: bool
  love_cache :: "'r option"

text \<open>
  Modelled from the spec: \<open>model.train()\<close>, \<open>model.eval()\<close> and \<open>model(test_x)\<close> are
  methods of gpytorch, not in the repository's files. \<open>model.train()\<close> is the
  specification's \<open>invalidate\<close> ("invalidate() on entering training"; the notebook:
  "Clear the cache from the previous computations"): it clears the decomposition and the
  predictive cache. \<open>model.eval()\<close> only changes the mode.
\<close>

definition invalidate :: "'r model_state \<Rightarrow> 'r model_state" where
  "invalidate s = s\<lparr>training := True, love_cache := None\<rparr>"

definition model_eval :: "'r model_state \<Rightarrow> 'r model_state" where
  "model_eval s = s\<lparr>training := False\<rparr>"

text \<open>
  Modelled from the spec: \<open>build(trainingSystem, k) -> RootDecomposition\<close>, which
  "fails with NumericalInstabilityError if the iteration loses orthogonality beyond
  tolerance".
\<close>

definition build :: "('q, 'r, 'd, 'z, 's) gp_library \<Rightarrow> nat \<Rightarrow> error + 'r" where
  "build lib k =
     (case root_decomposition lib k of
        None \<Rightarrow> Inl NumericalInstabilityError
      | Some r \<Rightarrow> Inr r)"

text \<open>
  Modelled from the spec: \<open>model(test_x)\<close>, the specification's \<open>predictVariance\<close>. In
  training mode the call returns the prior of \<open>forward\<close> (the notebook's training loop
  takes its loss from it). In eval mode with \<open>fast_pred_var\<close> it answers from the cached
  decomposition, and when there is none it builds one first, with the rank of the call's
  settings ("forces lazy recomputation on next inference", "build() lazily on first query
  after entering eval"; the notebook: "The above cell additionally computed the caches
  required to get fast predictions"). Without \<open>fast_pred_var\<close> it is the standard
  computation, which neither reads nor writes the cache.
\<close>

definition model_call ::
  "('q, 'r, 'd, 'z, 's) gp_library \<Rightarrow> settings \<Rightarrow> 'r model_state \<Rightarrow> 'q
    \<Rightarrow> error + ('r model_state \<times> 'd)" where
  "model_call lib st s q =
     (if training s then Inr (s, prior lib q)
      else if fast_pred_var st then
        (case love_cache s of
           Some r \<Rightarrow> Inr (s, love_predictive lib (fast_pred_samples st) r q)
         | None \<Rightarrow>
             (case build lib (max_root_decomposition_size st) of
                Inl e \<Rightarrow> Inl e
              | Inr r \<Rightarrow>
                  Inr (s\<lparr>love_cache := Some r\<rparr>,
                       love_predictive lib (fast_pred_samples st) r q)))
      else Inr (s, exact_predictive lib q))"

text \<open>
  Modelled from the spec: \<open>model(test_x).rsample(...)\<close>, the specification's \<open>sample\<close>:
  the draws \<open>z\<close> applied to the distribution that the call returns.
\<close>

definition model_rsample ::
  "('q, 'r, 'd, 'z, 's) gp_library \<Rightarrow> settings \<Rightarrow> 'r model_state \<Rightarrow> 'q \<Rightarrow> 'z
    \<Rightarrow> error + ('r model_state \<times> 's)" where
  "model_rsample lib st s q z =
     (case model_call lib st s q of
        Inl e \<Rightarrow> Inl e
      | Inr (s', d) \<Rightarrow> Inr (s', rsample lib d z))"

text \<open>
  A library small enough to run: a decomposition is its rank, a distribution records the
  path it was computed on (\<open>0\<close> the prior, \<open>1\<close> the standard computation, \<open>2\<close> the cache),
  the decomposition it used and the query.
\<close>

definition rank_library :: "(nat, nat, nat \<times> nat \<times> nat, nat, nat) gp_library" where
  "rank_library =
     \<lparr>prior = (\<lambda>q. (0, 0, q)),
      exact_predictive = (\<lambda>q. (1, 0, q)),
      root_decomposition = (\<lambda>k. Some k),
      love_predictive = (\<lambda>fps r q. (2, r, q)),
      rsample = (\<lambda>(path, r, q) z. path + r + q + z)\<rparr>"


section \<open>Properties of the rescaling\<close>

lemma float32_overflow_gt: "2 < float32_overflow"
  by (simp add: float32_overflow_def)

lemma float32_Finite:
  assumes "- float32_overflow < r" and "r < float32_overflow"
  shows "float32 r = Finite r"
  using assms by (simp add: float32_def)

lemma max_list_Max: "xs \<noteq> [] \<Longrightarrow> max_list xs = Max (set xs)"
  by (induction xs rule: max_list.induct) (auto simp: max_def split: list.splits)

lemma tmax_list_Finite:
  "ys \<noteq> [] \<Longrightarrow> tmax_list (map (\<lambda>x. Finite (f x)) ys) = Finite (max_list (map f ys))"
proof (induction ys)
  case Nil
  then show ?case by simp
next
  case (Cons y ys)
  then show ?case by (cases ys) simp_all
qed

lemma spread_eq: "c \<noteq> [] \<Longrightarrow> spread c = Max (set c) - Min (set c)"
  by (simp add: spread_def max_list_Max min_list_Min)

lemma shifted_Finite:
  assumes ne: "c \<noteq> []" and sp: "spread c < float32_overflow"
  shows "shifted c = map (\<lambda>x. Finite (x - Min (set c))) c"
proof -
  have "float32 (x - Min (set c)) = Finite (x - Min (set c))" if "x \<in> set c" for x
  proof (rule float32_Finite)
    have "Min (set c) \<le> x" "x \<le> Max (set c)" using that by simp_all
    then show "- float32_overflow < x - Min (set c)"
      using float32_overflow_gt by linarith
    show "x - Min (set c) < float32_overflow"
      using \<open>x \<le> Max (set c)\<close> sp ne by (simp add: spread_eq)
  qed
  then show ?thesis using ne by (simp add: shifted_def min_list_Min)
qed

lemma shifted_max:
  assumes ne: "c \<noteq> []" and sp: "spread c < float32_overflow"
  shows "tmax_list (shifted c) = Finite (Max (set c) - Min (set c))"
proof -
  have "tmax_list (shifted c) = Finite (max_list (map (\<lambda>x. x - Min (set c)) c))"
    using ne by (simp add: shifted_Finite[OF ne sp] tmax_list_Finite)
  also have "max_list (map (\<lambda>x. x - Min (set c)) c) = Max ((\<lambda>x. x - Min (set c)) ` set c)"
    using ne by (simp add: max_list_Max)
  also have "\<dots> = Max (set c) - Min (set c)"
    using ne by (intro mono_Max_commute[symmetric] monoI) simp_all
  finally show ?thesis .
qed

lemma shifted_entry:
  assumes ne: "c \<noteq> []" and sp: "spread c < float32_overflow" and x: "x \<in> set c"
  shows "float32 (x - min_list c) = Finite (x - Min (set c))"
proof -
  have "Min (set c) \<le> x" "x \<le> Max (set c)" using x by simp_all
  then have "- float32_overflow < x - Min (set c)" "x - Min (set c) < float32_overflow"
    using float32_overflow_gt sp ne by (simp_all add: spread_eq)
  then show ?thesis using ne by (simp add: float32_Finite min_list_Min)
qed

lemma constant_iff:
  assumes "c \<noteq> []"
  shows "constant_column c \<longleftrightarrow> Max (set c) = Min (set c)"
proof
  assume "constant_column c"
  then have "set c = {hd c}"
    using assms by (cases c) (auto simp: constant_column_def list_all_iff)
  then show "Max (set c) = Min (set c)" by simp
next
  assume eq: "Max (set c) = Min (set c)"
  have "x = hd c" if "x \<in> set c" for x
  proof -
    have "Min (set c) \<le> x" "x \<le> Max (set c)" using that by simp_all
    moreover have "Min (set c) \<le> hd c" "hd c \<le> Max (set c)" using assms by simp_all
    ultimately show ?thesis using eq by linarith
  qed
  then show "constant_column c" by (simp add: constant_column_def list_all_iff)
qed

lemma constant_spread:
  assumes "c \<noteq> []" and "constant_column c"
  shows "spread c < float32_overflow"
  using assms float32_overflow_gt by (simp add: spread_eq constant_iff)

lemma scale_unit:
  assumes "0 \<le> r" and "r \<le> 1"
  shows "tsub (tmul 2 (float32 r)) 1 = Finite (2 * r - 1)"
proof -
  have "float32 r = Finite r"
    using assms float32_overflow_gt by (intro float32_Finite) linarith+
  moreover have "float32 (2 * r) = Finite (2 * r)"
    using assms float32_overflow_gt by (intro float32_Finite) linarith+
  moreover have "float32 (2 * r - 1) = Finite (2 * r - 1)"
    using assms float32_overflow_gt by (intro float32_Finite) linarith+
  ultimately show ?thesis by simp
qed

lemma scaled_bounds:
  assumes ne: "c \<noteq> []" and nc: "\<not> constant_column c"
    and sp: "spread c < float32_overflow" and x: "x \<in> set c"
  shows "\<exists>v. scale_entry (float32 (x - min_list c)) (tmax_list (shifted c)) = Finite v
              \<and> - 1 \<le> v \<and> v \<le> 1"
proof -
  let ?lo = "Min (set c)" and ?hi = "Max (set c)"
  have lohi: "?lo \<le> x" "x \<le> ?hi" using x by simp_all
  have "?lo \<le> ?hi" using lohi by linarith
  moreover have "?hi \<noteq> ?lo" using ne nc by (simp add: constant_iff)
  ultimately have pos: "0 < ?hi - ?lo" by linarith
  define r where "r = (x - ?lo) / (?hi - ?lo)"
  have r0: "0 \<le> r" using pos lohi by (simp add: r_def)
  have r1: "r \<le> 1" using pos lohi by (simp add: r_def)
  have "scale_entry (float32 (x - min_list c)) (tmax_list (shifted c))
          = tsub (tmul 2 (float32 r)) 1"
    using pos by (simp add: scale_entry_def shifted_max[OF ne sp] shifted_entry[OF ne sp x] r_def)
  then have "scale_entry (float32 (x - min_list c)) (tmax_list (shifted c)) = Finite (2 * r - 1)"
    by (simp add: scale_unit[OF r0 r1])
  then show ?thesis using r0 r1 by (intro exI[of _ "2 * r - 1"]) simp
qed

lemma scaled_min:
  assumes ne: "c \<noteq> []" and nc: "\<not> constant_column c" and sp: "spread c < float32_overflow"
  shows "scale_entry (float32 (Min (set c) - min_list c)) (tmax_list (shifted c)) = Finite (- 1)"
proof -
  have x: "Min (set c) \<in> set c" using ne by simp
  have d: "Max (set c) - Min (set c) \<noteq> 0" using ne nc by (simp add: constant_iff)
  have "scale_entry (float32 (Min (set c) - min_list c)) (tmax_list (shifted c))
          = tsub (tmul 2 (float32 0)) 1"
    using d by (simp add: scale_entry_def shifted_max[OF ne sp] shifted_entry[OF ne sp x])
  then show ?thesis using scale_unit[of 0] by simp
qed

lemma scaled_max:
  assumes ne: "c \<noteq> []" and nc: "\<not> constant_column c" and sp: "spread c < float32_overflow"
  shows "scale_entry (float32 (Max (set c) - min_list c)) (tmax_list (shifted c)) = Finite 1"
proof -
  have x: "Max (set c) \<in> set c" using ne by simp
  have d: "Max (set c) - Min (set c) \<noteq> 0" using ne nc by (simp add: constant_iff)
  have "scale_entry (float32 (Max (set c) - min_list c)) (tmax_list (shifted c))
          = tsub (tmul 2 (float32 1)) 1"
    using d by (simp add: scale_entry_def shifted_max[OF ne sp] shifted_entry[OF ne sp x])
  then show ?thesis using scale_unit[of 1] by simp
qed

lemma scaled_constant:
  assumes ne: "c \<noteq> []" and cc: "constant_column c" and x: "x \<in> set c"
  shows "scale_entry (float32 (x - min_list c)) (tmax_list (shifted c)) = NaN"
proof -
  have sp: "spread c < float32_overflow" using ne cc by (rule constant_spread)
  have eq: "Max (set c) = Min (set c)" using ne cc by (simp add: constant_iff)
  have "Min (set c) \<le> x" "x \<le> Max (set c)" using x by simp_all
  then have x0: "x - Min (set c) = 0" using eq by linarith
  have "scale_entry (float32 (x - min_list c)) (tmax_list (shifted c))
          = scale_entry (Finite 0) (Finite 0)"
    by (simp add: shifted_max[OF ne sp] shifted_entry[OF ne sp x] x0 eq)
  then show ?thesis by (simp add: scale_entry_def)
qed

lemma column_sub_rows:
  assumes "\<forall>row\<in>set X. length row = d" and "length v = d" and "j < d"
  shows "column (sub_rows X v) j = map (\<lambda>x. float32 (x - v ! j)) (column X j)"
  using assms by (simp add: column_def sub_rows_def)

lemma min0_rows:
  assumes "X \<noteq> []" and "\<forall>row\<in>set X. length row = d"
  shows "min0 X = Inr (map (\<lambda>j. min_list (column X j)) [0..<d])"
  using assms by (cases X) (simp_all add: min0_def)

lemma max0_rows:
  assumes "X \<noteq> []" and "\<forall>row\<in>set X. length row = d"
  shows "max0 X = Inr (map (\<lambda>j. tmax_list (column X j)) [0..<d])"
  using assms by (cases X) (simp_all add: max0_def)

lemma sub_rows_shape:
  assumes "\<forall>row\<in>set X. length row = d" and "length v = d"
  shows "\<forall>row\<in>set (sub_rows X v). length row = d"
  using assms by (auto simp: sub_rows_def)

lemma rescale_entries:
  assumes ne: "P \<noteq> []" and shape: "\<forall>row\<in>set P. length row = d"
  shows "\<exists>Q. rescale P = Inr Q \<and> length Q = length P \<and>
          (\<forall>i<length P. length (Q ! i) = d \<and>
             (\<forall>j<d. Q ! i ! j =
                scale_entry (float32 (P ! i ! j - min_list (column P j)))
                  (tmax_list (shifted (column P j)))))"
proof -
  let ?mins = "map (\<lambda>j. min_list (column P j)) [0..<d]"
  let ?P1 = "sub_rows P ?mins"
  let ?maxs = "map (\<lambda>j. tmax_list (column ?P1 j)) [0..<d]"
  let ?Q = "map (\<lambda>row. map2 scale_entry row ?maxs) ?P1"
  have m: "min0 P = Inr ?mins" using ne shape by (rule min0_rows)
  have ne1: "?P1 \<noteq> []" using ne by (simp add: sub_rows_def)
  have shape1: "\<forall>row\<in>set ?P1. length row = d"
    using shape by (rule sub_rows_shape) simp
  have M: "max0 ?P1 = Inr ?maxs" using ne1 shape1 by (rule max0_rows)
  have r: "rescale P = Inr ?Q" by (simp add: rescale_def m M Let_def)
  have len: "length ?Q = length P" by (simp add: sub_rows_def)
  have ent: "length (?Q ! i) = d \<and> (\<forall>j<d. ?Q ! i ! j =
       scale_entry (float32 (P ! i ! j - min_list (column P j)))
         (tmax_list (shifted (column P j))))"
    if i: "i < length P" for i
  proof -
    have rowlen: "length (P ! i) = d" using shape i by simp
    have i1: "i < length ?P1" using i by (simp add: sub_rows_def)
    have row1: "?P1 ! i = map2 (\<lambda>x m. float32 (x - m)) (P ! i) ?mins"
      using i by (simp add: sub_rows_def)
    have qi: "?Q ! i = map2 scale_entry (?P1 ! i) ?maxs" using i1 by simp
    have l1: "length (?P1 ! i) = d" using rowlen by (simp add: row1)
    have "length (?Q ! i) = d" using l1 by (simp add: qi)
    moreover have "?Q ! i ! j =
       scale_entry (float32 (P ! i ! j - min_list (column P j)))
         (tmax_list (shifted (column P j)))"
      if j: "j < d" for j
    proof -
      have c: "column ?P1 j = shifted (column P j)"
        using column_sub_rows[OF shape _ j, of ?mins] j by (simp add: shifted_def)
      have "?Q ! i ! j = scale_entry (?P1 ! i ! j) (?maxs ! j)"
        using j l1 by (simp add: qi)
      also have "?P1 ! i ! j = float32 (P ! i ! j - min_list (column P j))"
        using j rowlen by (simp add: row1)
      also have "?maxs ! j = tmax_list (shifted (column P j))"
        using j by (simp add: c)
      finally show ?thesis .
    qed
    ultimately show ?thesis by blast
  qed
  show ?thesis using r len ent by blast
qed

text \<open>
  Claim C10, as amended. In \<open>GPRegressionModel.forward\<close>, for a batch whose extracted
  feature matrix \<open>P\<close> is finite (with \<open>n \<ge> 1\<close> rows and \<open>d\<close> columns; \<open>d = 2\<close> in the
  notebook): if a feature dimension \<open>j\<close> is not constant across the batch and its spread
  is below the float32 overflow threshold, every rescaled value of that dimension is a
  finite number in the closed interval from \<open>-1\<close> to \<open>1\<close>, and both ends are reached: the
  scaling is to \<open>[-1, 1]\<close>, not to \<open>[0, 1]\<close>. If the dimension is constant across the batch,
  the rescaling divides zero by zero and every value of that dimension is NaN. Either way
  \<open>forward\<close> raises nothing and returns the distribution that the mean module and the
  covariance module make of the rescaled matrix.
\<close>

theorem forward_rescaling:
  assumes fx: "feature_extractor x = P"
    and ne: "P \<noteq> []"
    and shape: "\<forall>row\<in>set P. length row = d"
  shows "\<exists>Q. forward feature_extractor mean_module covar_module x
                = Inr (MultivariateNormal (mean_module Q) (covar_module Q))
          \<and> length Q = length P
          \<and> (\<forall>j<d. \<not> constant_column (column P j) \<longrightarrow>
                    spread (column P j) < float32_overflow \<longrightarrow>
                (\<forall>i<length P. \<exists>v. Q ! i ! j = Finite v \<and> - 1 \<le> v \<and> v \<le> 1)
              \<and> (\<exists>i<length P. Q ! i ! j = Finite (- 1))
              \<and> (\<exists>i<length P. Q ! i ! j = Finite 1))
          \<and> (\<forall>j<d. constant_column (column P j) \<longrightarrow> (\<forall>i<length P. Q ! i ! j = NaN))"
proof -
  obtain Q where r: "rescale P = Inr Q" and len: "length Q = length P"
    and ent: "\<And>i j. i < length P \<Longrightarrow> j < d \<Longrightarrow> Q ! i ! j =
       scale_entry (float32 (P ! i ! j - min_list (column P j)))
         (tmax_list (shifted (column P j)))"
    using rescale_entries[OF ne shape] by blast
  have cne: "column P j \<noteq> []" for j using ne by (simp add: column_def)
  have mem: "P ! i ! j \<in> set (column P j)" if "i < length P" for i j
    using that by (simp add: column_def)
  have idx: "\<exists>i<length P. P ! i ! j = y" if "y \<in> set (column P j)" for y j
    using that by (auto simp: column_def in_set_conv_nth)
  have fw: "forward feature_extractor mean_module covar_module x
              = Inr (MultivariateNormal (mean_module Q) (covar_module Q))"
    by (simp add: forward_def fx r)
  have nonconst: "(\<forall>i<length P. \<exists>v. Q ! i ! j = Finite v \<and> - 1 \<le> v \<and> v \<le> 1)
              \<and> (\<exists>i<length P. Q ! i ! j = Finite (- 1))
              \<and> (\<exists>i<length P. Q ! i ! j = Finite 1)"
    if j: "j < d" and nc: "\<not> constant_column (column P j)"
      and sp: "spread (column P j) < float32_overflow" for j
  proof (intro conjI allI impI)
    fix i assume "i < length P"
    then show "\<exists>v. Q ! i ! j = Finite v \<and> - 1 \<le> v \<and> v \<le> 1"
      using scaled_bounds[OF cne nc sp mem] ent j by simp
  next
    have "Min (set (column P j)) \<in> set (column P j)" using cne by simp
    then obtain i where "i < length P" "P ! i ! j = Min (set (column P j))"
      using idx by blast
    then show "\<exists>i<length P. Q ! i ! j = Finite (- 1)"
      using scaled_min[OF cne nc sp] ent j by auto
  next
    have "Max (set (column P j)) \<in> set (column P j)" using cne by simp
    then obtain i where "i < length P" "P ! i ! j = Max (set (column P j))"
      using idx by blast
    then show "\<exists>i<length P. Q ! i ! j = Finite 1"
      using scaled_max[OF cne nc sp] ent j by auto
  qed
  have const: "Q ! i ! j = NaN"
    if "j < d" and "constant_column (column P j)" and "i < length P" for i j
    using scaled_constant[OF cne that(2) mem] ent that by simp
  show ?thesis using fw len nonconst const by blast
qed

text \<open>
  Claim C10 as stated fails where the subtraction overflows. Both feature dimensions of
  this batch of two rows are non-constant and all four entries are float32 values, but
  \<open>2^127 - (-2^127)\<close> is infinite in float32, the column maximum is infinite, and
  \<open>inf / inf\<close> is NaN.
\<close>

theorem forward_rescaling_counterexample:
  "\<not> constant_column (column [[- (2 ^ 127), 0], [2 ^ 127, 1]] 0)
   \<and> \<not> constant_column (column [[- (2 ^ 127), 0], [2 ^ 127, 1]] 1)
   \<and> forward (\<lambda>x. x) (\<lambda>p. p) (\<lambda>p. p) [[- (2 ^ 127), 0], [2 ^ 127, 1]]
       = Inr (MultivariateNormal [[Finite (- 1), Finite (- 1)], [NaN, Finite 1]]
                                 [[Finite (- 1), Finite (- 1)], [NaN, Finite 1]])"
  by (simp add: forward_def rescale_def min0_def max0_def sub_rows_def column_def
      scale_entry_def float32_def float32_overflow_def constant_column_def)

text \<open>
  A batch of three rows whose first feature varies and whose second feature is constant.
\<close>

theorem forward_rescaling_witness:
  "\<exists>Q. forward (\<lambda>x. x) (\<lambda>p. p) (\<lambda>p. p) [[0, 5], [1, 5], [4, 5]]
          = Inr (MultivariateNormal Q Q)
      \<and> length Q = 3
      \<and> (\<exists>v. Q ! 1 ! 0 = Finite v \<and> - 1 \<le> v \<and> v \<le> 1)
      \<and> Q ! 1 ! 1 = NaN"
proof -
  let ?P = "[[0, 5], [1, 5], [4, 5 :: real]]"
  have ne: "?P \<noteq> []" by simp
  have shape: "\<forall>row\<in>set ?P. length row = 2" by simp
  have c0: "\<not> constant_column (column ?P 0)"
    by (simp add: constant_column_def column_def)
  have s0: "spread (column ?P 0) < float32_overflow"
    by (simp add: spread_def column_def float32_overflow_def)
  have c1: "constant_column (column ?P 1)"
    by (simp add: constant_column_def column_def)
  obtain Q where fw: "forward (\<lambda>x. x) (\<lambda>p. p) (\<lambda>p. p) ?P = Inr (MultivariateNormal Q Q)"
    and len: "length Q = length ?P"
    and nonconst: "\<forall>j<2. \<not> constant_column (column ?P j) \<longrightarrow>
                spread (column ?P j) < float32_overflow \<longrightarrow>
                (\<forall>i<length ?P. \<exists>v. Q ! i ! j = Finite v \<and> - 1 \<le> v \<and> v \<le> 1)
              \<and> (\<exists>i<length ?P. Q ! i ! j = Finite (- 1))
              \<and> (\<exists>i<length ?P. Q ! i ! j = Finite 1)"
    and const: "\<forall>j<2. constant_column (column ?P j) \<longrightarrow> (\<forall>i<length ?P. Q ! i ! j = NaN)"
    using forward_rescaling[of "\<lambda>x. x" ?P ?P 2 "\<lambda>p. p" "\<lambda>p. p", OF refl ne shape]
    by blast
  have "\<exists>v. Q ! 1 ! 0 = Finite v \<and> - 1 \<le> v \<and> v \<le> 1"
    using nonconst c0 s0 by simp
  moreover have "Q ! 1 ! 1 = NaN"
    using const c1 by simp
  ultimately show ?thesis using fw len by simp
qed


section \<open>Queries against a cleared cache\<close>

lemma model_call_cold:
  assumes "\<not> training s" and "love_cache s = None" and "fast_pred_var st"
  shows "model_call lib st s q =
           (case root_decomposition lib (max_root_decomposition_size st) of
              None \<Rightarrow> Inl NumericalInstabilityError
            | Some r \<Rightarrow> Inr (s\<lparr>love_cache := Some r\<rparr>,
                              love_predictive lib (fast_pred_samples st) r q))"
  using assms by (simp add: model_call_def build_def split: option.splits)

lemma model_call_not_stale: "model_call lib st s q \<noteq> Inl StaleCacheError"
  by (simp add: model_call_def build_def split: option.splits)

lemma model_rsample_not_stale: "model_rsample lib st s q z \<noteq> Inl StaleCacheError"
  using model_call_not_stale[of lib st s q]
  by (auto simp: model_rsample_def split: sum.splits)

text \<open>
  Claim C2, as amended. After \<open>invalidate\<close> (\<open>model.train()\<close>) and \<open>model.eval()\<close>, with no
  call of \<open>build\<close> in between, an inference query (\<open>model(test_x)\<close> for the variance, or
  \<open>.rsample\<close> on it) does not raise \<open>StaleCacheError\<close>. With \<open>fast_pred_var\<close> on, the query
  runs the root decomposition itself, with the rank of its settings, and when the
  decomposition succeeds the query returns the prediction made from it and leaves it in
  the cache.
\<close>

theorem query_after_invalidate_rebuilds:
  fixes lib :: "('q, 'r, 'd, 'z, 's) gp_library"
  shows "model_call lib st (model_eval (invalidate s)) q \<noteq> Inl StaleCacheError
       \<and> model_rsample lib st (model_eval (invalidate s)) q z \<noteq> Inl StaleCacheError
       \<and> (fast_pred_var st \<longrightarrow>
            root_decomposition lib (max_root_decomposition_size st) = Some r \<longrightarrow>
              model_call lib st (model_eval (invalidate s)) q
                = Inr ((model_eval (invalidate s))\<lparr>love_cache := Some r\<rparr>,
                       love_predictive lib (fast_pred_samples st) r q)
            \<and> model_rsample lib st (model_eval (invalidate s)) q z
                = Inr ((model_eval (invalidate s))\<lparr>love_cache := Some r\<rparr>,
                       rsample lib (love_predictive lib (fast_pred_samples st) r q) z))"
proof -
  let ?s = "model_eval (invalidate s)"
  have ev: "\<not> training ?s" and cold: "love_cache ?s = None"
    by (simp_all add: model_eval_def invalidate_def)
  show ?thesis
  proof (intro conjI impI)
    show "model_call lib st ?s q \<noteq> Inl StaleCacheError"
      by (rule model_call_not_stale)
    show "model_rsample lib st ?s q z \<noteq> Inl StaleCacheError"
      by (rule model_rsample_not_stale)
  next
    assume f: "fast_pred_var st"
      and d: "root_decomposition lib (max_root_decomposition_size st) = Some r"
    show c: "model_call lib st ?s q
            = Inr (?s\<lparr>love_cache := Some r\<rparr>, love_predictive lib (fast_pred_samples st) r q)"
      using model_call_cold[OF ev cold f, of lib q] d by simp
    show "model_rsample lib st ?s q z
            = Inr (?s\<lparr>love_cache := Some r\<rparr>,
                   rsample lib (love_predictive lib (fast_pred_samples st) r q) z)"
      by (simp add: model_rsample_def c)
  qed
qed

text \<open>
  Claim C2 as stated fails on the notebook's own cells: a cache built with rank \<open>50\<close> is
  cleared by \<open>model.train()\<close>; after \<open>model.eval()\<close> the variance query with
  \<open>max_root_decomposition_size(100)\<close> and the sampling query with
  \<open>max_root_decomposition_size(200)\<close> both return a result, computed from a decomposition
  of the query's own rank that the query has built and cached.
\<close>

theorem query_after_invalidate_counterexample:
  "model_call rank_library
      \<lparr>fast_pred_var = True, fast_pred_samples = False, max_root_decomposition_size = 100\<rparr>
      (model_eval (invalidate \<lparr>training = False, love_cache = Some 50\<rparr>)) 7
     = Inr (\<lparr>training = False, love_cache = Some 100\<rparr>, (2, 100, 7))
   \<and> model_rsample rank_library
      \<lparr>fast_pred_var = True, fast_pred_samples = True, max_root_decomposition_size = 200\<rparr>
      (model_eval (invalidate \<lparr>training = False, love_cache = Some 50\<rparr>)) 7 1
     = Inr (\<lparr>training = False, love_cache = Some 200\<rparr>, 210)"
  by (simp add: model_call_def model_rsample_def model_eval_def invalidate_def build_def
      rank_library_def)

text \<open>The query of the notebook's sampling cell, against a cache built with rank \<open>10\<close>.\<close>

theorem query_after_invalidate_rebuilds_witness:
  "model_rsample rank_library
      \<lparr>fast_pred_var = True, fast_pred_samples = True, max_root_decomposition_size = 200\<rparr>
      (model_eval (invalidate \<lparr>training = False, love_cache = Some 10\<rparr>)) 3 0
     = Inr (\<lparr>training = False, love_cache = Some 200\<rparr>, 205)"
proof -
  let ?st = "\<lparr>fast_pred_var = True, fast_pred_samples = True,
               max_root_decomposition_size = 200\<rparr>"
  let ?s = "\<lparr>training = False, love_cache = Some (10 :: nat)\<rparr>"
  have fast: "fast_pred_var ?st" by simp
  have dec: "root_decomposition rank_library (max_root_decomposition_size ?st) = Some 200"
    by (simp add: rank_library_def)
  have "model_rsample rank_library ?st (model_eval (invalidate ?s)) 3 0
          = Inr ((model_eval (invalidate ?s))\<lparr>love_cache := Some 200\<rparr>,
                 rsample rank_library
                   (love_predictive rank_library (fast_pred_samples ?st) 200 3) 0)"
    using query_after_invalidate_rebuilds[of rank_library ?st ?s 3 0 200] fast dec by blast
  then show ?thesis
    by (simp add: model_eval_def invalidate_def rank_library_def)
qed

end
